theory Spec2Isabelle
  imports Complex_Main "HOL-Library.Word" "HOL-Library.Log_Nat"
begin

section \<open>Shared types (types/index.ts)\<close>

datatype UserType = PASSENGER | DRIVER | ADMIN | SYSTEM

text \<open>
  The access-token payload of the TypeScript interface \<open>JwtPayload\<close>. The fields
  \<open>iat\<close> and \<open>exp\<close> are NumericDate values, numbers holding whole seconds since the
  epoch: each is given by the integer it holds, and the arithmetic on it rounds as
  doubles do (see \<open>js_sub\<close>).
\<close>

record JwtPayload =
  sub :: string
  email :: string
  userType :: UserType
  roles :: "string list"
  permissions :: "string list"
  iat :: int
  exp :: int

section \<open>The clock\<close>

text \<open>
  \<open>Date.now()\<close> is the only clock the code reads; it is a parameter \<open>date_now\<close>
  (milliseconds since the epoch) of every function that calls it.
  \<open>Math.floor(Date.now() / 1000)\<close> is the floor division by 1000.
\<close>

definition now_seconds :: "int \<Rightarrow> int" where
  "now_seconds date_now = date_now div 1000"

section \<open>JavaScript values and exceptions\<close>

text \<open>
  A thrown exception is the left summand of the result type; the constructor is the
  JavaScript error class, its argument the message.
\<close>

datatype js_error =
    Error string
  | TypeError string
  | RangeError string
  | JsonWebTokenError string
  | NotBeforeError string
  | TokenExpiredError string

text \<open>
  The numbers this code computes with are IEEE 754 doubles holding integers: \<open>Num n\<close>
  is the double whose value is the integer \<open>n\<close>, \<open>PosInfinity\<close> and \<open>NegInfinity\<close>
  the values \<open>Infinity\<close> and \<open>-Infinity\<close>. \<open>to_double n\<close> is the Number value for
  the mathematical integer \<open>n \<ge> 0\<close>: \<open>n\<close> itself below \<open>2 ^ 53\<close>, otherwise \<open>n\<close>
  rounded to 53 significant bits (to nearest, ties to even), and \<open>Infinity\<close> from
  \<open>2 ^ 1024\<close> on. \<open>to_double_int\<close> is the same for a signed integer: rounding is
  symmetric about 0.
\<close>

datatype jsnum = Num int | PosInfinity | NegInfinity

definition to_double :: "nat \<Rightarrow> jsnum" where
  "to_double n =
     (if n < 2 ^ 53 then Num (int n)
      else
        let e = floorlog 2 n - 53;
            q = n div 2 ^ e;
            r = n mod 2 ^ e;
            half = 2 ^ (e - 1);
            m = (if half < r \<or> (r = half \<and> odd q) then q + 1 else q)
        in if 2 ^ 1024 \<le> m * 2 ^ e then PosInfinity else Num (int (m * 2 ^ e)))"

fun js_negate :: "jsnum \<Rightarrow> jsnum" where
  "js_negate (Num a) = Num (- a)"
| "js_negate PosInfinity = NegInfinity"
| "js_negate NegInfinity = PosInfinity"

definition to_double_int :: "int \<Rightarrow> jsnum" where
  "to_double_int n = (if 0 \<le> n then to_double (nat n) else js_negate (to_double (nat (- n))))"

text \<open>\<open>value * k\<close> for a positive integer constant \<open>k\<close>: the exact product, rounded.\<close>

fun js_mul :: "jsnum \<Rightarrow> nat \<Rightarrow> jsnum" where
  "js_mul (Num a) k = to_double (nat a * k)"
| "js_mul PosInfinity k = PosInfinity"
| "js_mul NegInfinity k = NegInfinity"

text \<open>
  \<open>now + seconds\<close> for the integer clock reading \<open>now\<close>: the exact sum, rounded (a
  negative sum only arises from a clock before 1970 and is exact).
\<close>

fun js_add :: "int \<Rightarrow> jsnum \<Rightarrow> jsnum" where
  "js_add now (Num a) = (if 0 \<le> now + a then to_double (nat (now + a)) else Num (now + a))"
| "js_add now PosInfinity = PosInfinity"
| "js_add now NegInfinity = NegInfinity"

text \<open>
  \<open>a - b\<close> for two doubles holding the integers \<open>a\<close> and \<open>b\<close>: the exact difference,
  rounded to a double.
\<close>

definition js_sub :: "int \<Rightarrow> int \<Rightarrow> jsnum" where
  "js_sub a b = to_double_int (a - b)"

text \<open>\<open>a <= b\<close> on doubles, and \<open>Math.max(a, b)\<close>.\<close>

fun js_le :: "jsnum \<Rightarrow> jsnum \<Rightarrow> bool" where
  "js_le NegInfinity b = True"
| "js_le (Num a) (Num b) = (a \<le> b)"
| "js_le (Num a) PosInfinity = True"
| "js_le (Num a) NegInfinity = False"
| "js_le PosInfinity PosInfinity = True"
| "js_le PosInfinity (Num b) = False"
| "js_le PosInfinity NegInfinity = False"

definition Math_max :: "jsnum \<Rightarrow> jsnum \<Rightarrow> jsnum" where
  "Math_max a b = (if js_le a b then b else a)"

text \<open>
  Values of decoded JSON and of the object literals handed to the token library. A
  property read yields \<open>None\<close> for \<open>undefined\<close>. Numbers are the integral ones:
  the numeric claims this code writes and reads (\<open>iat\<close>, \<open>exp\<close>, \<open>nbf\<close>) are whole
  seconds.
\<close>

datatype jsval =
    JNull
  | JBool bool
  | JNumber jsnum
  | JString string
  | JArray "jsval list"
  | JObject "(string \<times> jsval) list"

text \<open>
  \<open>v.key\<close> for the keys this code reads (none of them is a built-in property of a
  string, number, boolean or array): a TypeError on \<open>null\<close>, the member of an object,
  \<open>undefined\<close> otherwise.
\<close>

fun js_get :: "jsval \<Rightarrow> string \<Rightarrow> js_error + jsval option" where
  "js_get JNull key = Inl (TypeError (''Cannot read properties of null (reading '' @ key @ '')''))"
| "js_get (JObject kvs) key = Inr (map_of kvs key)"
| "js_get v key = Inr None"

text \<open>Truthiness, as \<open>||\<close> and \<open>if (x)\<close> test it.\<close>

fun js_truthy :: "jsval option \<Rightarrow> bool" where
  "js_truthy None = False"
| "js_truthy (Some JNull) = False"
| "js_truthy (Some (JBool b)) = b"
| "js_truthy (Some (JNumber n)) = (n \<noteq> Num 0)"
| "js_truthy (Some (JString s)) = (s \<noteq> [])"
| "js_truthy (Some v) = True"

text \<open>\<open>try { body } catch (error) { handler }\<close>.\<close>

definition try_catch :: "(js_error + 'a) \<Rightarrow> (js_error \<Rightarrow> js_error + 'a) \<Rightarrow> js_error + 'a" where
  "try_catch body handler = (case body of Inl e \<Rightarrow> handler e | Inr v \<Rightarrow> Inr v)"

text \<open>Sequencing of two computations that may throw.\<close>

definition bind_js :: "(js_error + 'a) \<Rightarrow> ('a \<Rightarrow> js_error + 'b) \<Rightarrow> js_error + 'b" where
  "bind_js m f = (case m of Inl e \<Rightarrow> Inl e | Inr v \<Rightarrow> f v)"

section \<open>AuthUtils: expiry helpers\<close>

text \<open>
  \<open>payload.exp\<close>, \<open>now\<close> and \<open>thresholdSeconds\<close> are doubles holding whole numbers of
  seconds. The comparison \<open>payload.exp < now\<close> of two such doubles is exact; the
  subtraction \<open>payload.exp - now\<close> is rounded to a double, and \<open>Math.max\<close> and \<open><=\<close>
  then work on the rounded value.
\<close>

definition isTokenExpired :: "int \<Rightarrow> JwtPayload \<Rightarrow> bool" where
  "isTokenExpired date_now payload = (let now = now_seconds date_now in exp payload < now)"

definition getTimeToExpiry :: "int \<Rightarrow> JwtPayload \<Rightarrow> jsnum" where
  "getTimeToExpiry date_now payload =
     (let now = now_seconds date_now in Math_max (Num 0) (js_sub (exp payload) now))"

definition shouldRefreshToken :: "int \<Rightarrow> JwtPayload \<Rightarrow> int \<Rightarrow> bool" where
  "shouldRefreshToken date_now payload thresholdSeconds =
     (let timeToExpiry = getTimeToExpiry date_now payload
      in js_le timeToExpiry (Num thresholdSeconds))"

text \<open>The default argument \<open>thresholdSeconds = 300\<close>.\<close>

definition shouldRefreshToken_default :: "int \<Rightarrow> JwtPayload \<Rightarrow> bool" where
  "shouldRefreshToken_default date_now payload = shouldRefreshToken date_now payload 300"

section \<open>AuthUtils.parseExpiry\<close>

definition is_digit :: "char \<Rightarrow> bool" where
  "is_digit c = (c \<in> set ''0123456789'')"

definition digit_value :: "char \<Rightarrow> nat" where
  "digit_value c = of_char c - of_char CHR ''0''"

definition decimal_value :: "string \<Rightarrow> nat" where
  "decimal_value ds = foldl (\<lambda>acc c. 10 * acc + digit_value c) 0 ds"

text \<open>\<open>parseInt(digits, 10)\<close> on a non-empty string of decimal digits.\<close>

definition parseInt10 :: "string \<Rightarrow> jsnum" where
  "parseInt10 ds = to_double (decimal_value ds)"

text \<open>
  \<open>expiry.match(/^(\d+)([smhd])$/)\<close>: the whole string is one or more ASCII digits
  followed by exactly one of the four unit letters; the result holds the two groups.
\<close>

definition match_expiry :: "string \<Rightarrow> (string \<times> char) option" where
  "match_expiry expiry =
     (if expiry = [] then None
      else let ds = butlast expiry; u = last expiry
           in if ds \<noteq> [] \<and> list_all is_digit ds \<and> u \<in> set ''smhd''
              then Some (ds, u) else None)"

definition multipliers :: "char \<Rightarrow> nat" where
  "multipliers unit =
     (if unit = CHR ''s'' then 1
      else if unit = CHR ''m'' then 60
      else if unit = CHR ''h'' then 3600
      else 86400)"

definition parseExpiry :: "string \<Rightarrow> js_error + jsnum" where
  "parseExpiry expiry =
     (case match_expiry expiry of
        None \<Rightarrow> Inl (Error (''Invalid expiry format: '' @ expiry))
      | Some (digits, unit) \<Rightarrow>
          (let v = parseInt10 digits in Inr (js_mul v (multipliers unit))))"

section \<open>The token library\<close>

text \<open>
  \<open>jwt.sign\<close>, \<open>jwt.verify\<close> and \<open>jwt.decode\<close> belong to the npm package
  \<open>jsonwebtoken\<close>, which is not part of this repository. Its byte-level work is a
  parameter of the model, a record of four functions:
  \<^item> \<open>jws_decode token\<close>: \<open>jwt.decode(token, {complete: true})\<close>, the three decoded parts
    of a token, \<open>None\<close> where the library returns \<open>null\<close> or throws because the string
    is not a decodable token;
  \<^item> \<open>jws_signature_ok token secret\<close>: the token has a signature made with \<open>secret\<close>
    by an algorithm the library accepts for a shared secret;
  \<^item> \<open>jws_sign header payload secret\<close>: the serialised, signed token;
  \<^item> \<open>ms\<close>: the time-span parser applied to the option \<open>expiresIn\<close> (milliseconds).
  \<open>sign\<close> takes its time stamp from the payload's \<open>iat\<close> when that is present and not
  0 (\<open>payload.iat || now\<close>).

  What the library does around them is written out below as its documentation states
  it, for the options this program passes (\<open>issuer\<close>, \<open>audience\<close>, \<open>expiresIn\<close>):
  \<open>sign\<close> rejects a missing secret, and rejects an option whose claim the payload
  already carries (the claims \<open>exp\<close>, \<open>aud\<close>, \<open>iss\<close> may be given in the payload or
  through \<open>expiresIn\<close>, \<open>audience\<close>, \<open>issuer\<close>, never both); \<open>verify\<close> checks the
  signature, then \<open>nbf\<close>, then \<open>exp\<close> against the clock (\<open>clockTimestamp >= exp\<close> is
  expired), then the audience and the issuer when the option is a non-empty string.
\<close>

record decoded_token =
  header_of :: jsval
  payload_of :: jsval
  signature_of :: string

record jwt_library =
  jws_decode :: "string \<Rightarrow> decoded_token option"
  jws_signature_ok :: "string \<Rightarrow> string \<Rightarrow> bool"
  jws_sign :: "jsval \<Rightarrow> jsval \<Rightarrow> string \<Rightarrow> string"
  ms :: "string \<Rightarrow> int option"

text \<open>\<open>obj[key] = v\<close> on the member list of an object.\<close>

fun obj_set :: "string \<Rightarrow> jsval \<Rightarrow> (string \<times> jsval) list \<Rightarrow> (string \<times> jsval) list" where
  "obj_set key v [] = [(key, v)]"
| "obj_set key v ((k, w) # kvs) = (if k = key then (key, v) # kvs else (k, w) # obj_set key v kvs)"

definition is_number :: "jsval option \<Rightarrow> bool" where
  "is_number v = (case v of Some (JNumber n) \<Rightarrow> True | _ \<Rightarrow> False)"

definition jwt_sign ::
  "jwt_library \<Rightarrow> (string \<times> jsval) list \<Rightarrow> string \<Rightarrow> string \<Rightarrow> string \<Rightarrow> string \<Rightarrow> int
     \<Rightarrow> js_error + string" where
  "jwt_sign L payload secretOrPrivateKey issuer audience expiresIn date_now =
     (if secretOrPrivateKey = [] then Inl (Error ''secretOrPrivateKey must have a value'')
      else if map_of payload ''iat'' \<noteq> None \<and> \<not> is_number (map_of payload ''iat'')
        then Inl (Error ''iat should be a number of seconds'')
      else if map_of payload ''exp'' \<noteq> None \<and> \<not> is_number (map_of payload ''exp'')
        then Inl (Error ''exp should be a number of seconds'')
      else if map_of payload ''exp'' \<noteq> None
        then Inl (Error ''Bad options.expiresIn option the payload already has an exp property.'')
      else if expiresIn = []
        then Inl (Error ''expiresIn should be a number of seconds or string representing a timespan'')
      else
        let timestamp = (case map_of payload ''iat'' of
                           Some (JNumber (Num t)) \<Rightarrow> if t = 0 then now_seconds date_now else t
                         | _ \<Rightarrow> now_seconds date_now)
        in case ms L expiresIn of
             None \<Rightarrow>
               Inl (Error ''expiresIn should be a number of seconds or string representing a timespan'')
           | Some millis \<Rightarrow>
               if map_of payload ''aud'' \<noteq> None
                 then Inl (Error ''Bad options.audience option. The payload already has an aud property.'')
               else if map_of payload ''iss'' \<noteq> None
                 then Inl (Error ''Bad options.issuer option. The payload already has an iss property.'')
               else
                 Inr (jws_sign L
                        (JObject [(''alg'', JString ''HS256''), (''typ'', JString ''JWT'')])
                        (JObject
                          (obj_set ''iss'' (JString issuer)
                            (obj_set ''aud'' (JString audience)
                              (obj_set ''exp'' (JNumber (Num ((timestamp * 1000 + millis) div 1000)))
                                (obj_set ''iat'' (JNumber (Num timestamp)) payload)))))
                        secretOrPrivateKey))"

text \<open>The comparisons of \<open>verify\<close> between the clock and a numeric claim.\<close>

fun clock_reached :: "int \<Rightarrow> jsnum \<Rightarrow> bool" where
  "clock_reached clockTimestamp (Num e) = (e \<le> clockTimestamp)"
| "clock_reached clockTimestamp PosInfinity = False"
| "clock_reached clockTimestamp NegInfinity = True"

definition check_nbf :: "int \<Rightarrow> jsval option \<Rightarrow> js_error + unit" where
  "check_nbf clockTimestamp nbf =
     (case nbf of
        None \<Rightarrow> Inr ()
      | Some (JNumber n) \<Rightarrow>
          if clock_reached clockTimestamp n then Inr () else Inl (NotBeforeError ''jwt not active'')
      | Some v \<Rightarrow> Inl (JsonWebTokenError ''invalid nbf value''))"

definition check_exp :: "int \<Rightarrow> jsval option \<Rightarrow> js_error + unit" where
  "check_exp clockTimestamp e =
     (case e of
        None \<Rightarrow> Inr ()
      | Some (JNumber n) \<Rightarrow>
          if clock_reached clockTimestamp n then Inl (TokenExpiredError ''jwt expired'') else Inr ()
      | Some v \<Rightarrow> Inl (JsonWebTokenError ''invalid exp value''))"

definition check_audience :: "string \<Rightarrow> jsval option \<Rightarrow> js_error + unit" where
  "check_audience audience aud =
     (if audience = [] then Inr ()
      else
        let target = (case aud of Some (JArray vs) \<Rightarrow> map Some vs | v \<Rightarrow> [v])
        in if Some (JString audience) \<in> set target then Inr ()
           else Inl (JsonWebTokenError (''jwt audience invalid. expected: '' @ audience)))"

definition check_issuer :: "string \<Rightarrow> jsval option \<Rightarrow> js_error + unit" where
  "check_issuer issuer iss =
     (if issuer = [] then Inr ()
      else if iss = Some (JString issuer) then Inr ()
      else Inl (JsonWebTokenError (''jwt issuer invalid. expected: '' @ issuer)))"

definition jwt_verify ::
  "jwt_library \<Rightarrow> string \<Rightarrow> string \<Rightarrow> string \<Rightarrow> string \<Rightarrow> int \<Rightarrow> js_error + jsval" where
  "jwt_verify L jwtString secretOrPublicKey issuer audience date_now =
     (let clockTimestamp = now_seconds date_now
      in case jws_decode L jwtString of
           None \<Rightarrow> Inl (JsonWebTokenError ''invalid token'')
         | Some decodedToken \<Rightarrow>
             if \<not> jws_signature_ok L jwtString secretOrPublicKey
               then Inl (JsonWebTokenError ''invalid signature'')
             else
               bind_js (js_get (payload_of decodedToken) ''nbf'') (\<lambda>nbf.
               bind_js (check_nbf clockTimestamp nbf) (\<lambda>_.
               bind_js (js_get (payload_of decodedToken) ''exp'') (\<lambda>e.
               bind_js (check_exp clockTimestamp e) (\<lambda>_.
               bind_js (js_get (payload_of decodedToken) ''aud'') (\<lambda>aud.
               bind_js (check_audience audience aud) (\<lambda>_.
               bind_js (js_get (payload_of decodedToken) ''iss'') (\<lambda>iss.
               bind_js (check_issuer issuer iss) (\<lambda>_.
               Inr (payload_of decodedToken))))))))))"

section \<open>AuthUtils: issuing and verifying tokens\<close>

record User =
  id_user :: string
  email_user :: string
  firstName :: string
  lastName :: string
  userType_user :: UserType
  emailVerified :: bool
  phoneVerified :: bool

record Role =
  id_role :: string
  name_role :: string
  displayName_role :: string
  parentRoleId :: "string option"
  isSystemRole :: bool
  isActive_role :: bool

record Permission =
  id_permission :: string
  name_permission :: string
  displayName_permission :: string
  resource :: string
  action :: string
  contextRequired :: bool

record AuthTokens =
  accessToken :: string
  refreshToken :: string
  expiresIn :: jsnum
  tokenType :: string

record JwtConfig =
  accessTokenSecret :: string
  refreshTokenSecret :: string
  accessTokenExpiry :: string
  refreshTokenExpiry :: string
  issuer :: string
  audience :: string

text \<open>
  \<open>AuthUtils.config\<close> is a static field that is \<open>undefined\<close> until \<open>initialize\<close> has
  run: the state is a \<open>JwtConfig option\<close>, and reading a property of it while it is
  \<open>None\<close> throws a TypeError.
\<close>

definition initialize :: "JwtConfig \<Rightarrow> JwtConfig option" where
  "initialize config = Some config"

definition read_config :: "JwtConfig option \<Rightarrow> js_error + JwtConfig" where
  "read_config config =
     (case config of
        None \<Rightarrow> Inl (TypeError ''Cannot read properties of undefined'')
      | Some c \<Rightarrow> Inr c)"

fun userType_string :: "UserType \<Rightarrow> string" where
  "userType_string PASSENGER = ''PASSENGER''"
| "userType_string DRIVER = ''DRIVER''"
| "userType_string ADMIN = ''ADMIN''"
| "userType_string SYSTEM = ''SYSTEM''"

definition generateTokens ::
  "jwt_library \<Rightarrow> JwtConfig option \<Rightarrow> int \<Rightarrow> User \<Rightarrow> Role list \<Rightarrow> Permission list
     \<Rightarrow> js_error + AuthTokens" where
  "generateTokens L config date_now user roles' permissions' =
     (let now = now_seconds date_now in
      bind_js (read_config config) (\<lambda>cfg.
      bind_js (parseExpiry (accessTokenExpiry cfg)) (\<lambda>accessTokenExpiry'.
      bind_js (parseExpiry (refreshTokenExpiry cfg)) (\<lambda>refreshTokenExpiry'.
      let payload =
            [(''sub'', JString (id_user user)),
             (''email'', JString (email_user user)),
             (''userType'', JString (userType_string (userType_user user))),
             (''roles'', JArray (map (\<lambda>role. JString (name_role role)) roles')),
             (''permissions'',
                JArray (map (\<lambda>permission. JString (name_permission permission)) permissions')),
             (''iat'', JNumber (Num now)),
             (''exp'', JNumber (js_add now accessTokenExpiry'))]
      in
      bind_js (jwt_sign L payload (accessTokenSecret cfg) (issuer cfg) (audience cfg)
                 (accessTokenExpiry cfg) date_now) (\<lambda>accessToken'.
      let refreshTokenPayload =
            [(''sub'', JString (id_user user)),
             (''type'', JString ''refresh''),
             (''iat'', JNumber (Num now)),
             (''exp'', JNumber (js_add now refreshTokenExpiry'))]
      in
      bind_js (jwt_sign L refreshTokenPayload (refreshTokenSecret cfg) (issuer cfg) (audience cfg)
                 (refreshTokenExpiry cfg) date_now) (\<lambda>refreshToken'.
      Inr \<lparr>accessToken = accessToken', refreshToken = refreshToken',
           expiresIn = accessTokenExpiry', tokenType = ''Bearer''\<rparr>))))))"

text \<open>
  The two verifiers return \<open>null\<close> (\<open>None\<close>) from their \<open>catch\<close> block. The access
  verifier returns the decoded claims as they are; the refresh verifier returns the pair
  of \<open>decoded.sub\<close> and \<open>decoded.type\<close>.
\<close>

definition verifyAccessToken ::
  "jwt_library \<Rightarrow> JwtConfig option \<Rightarrow> int \<Rightarrow> string \<Rightarrow> js_error + jsval option" where
  "verifyAccessToken L config date_now token =
     try_catch
       (bind_js (read_config config) (\<lambda>cfg.
        bind_js (jwt_verify L token (accessTokenSecret cfg) (issuer cfg) (audience cfg) date_now)
          (\<lambda>decoded. Inr (Some decoded))))
       (\<lambda>error. Inr None)"

record RefreshResult =
  sub_refresh :: "jsval option"
  type_refresh :: "jsval option"

definition verifyRefreshToken ::
  "jwt_library \<Rightarrow> JwtConfig option \<Rightarrow> int \<Rightarrow> string \<Rightarrow> js_error + RefreshResult option" where
  "verifyRefreshToken L config date_now token =
     try_catch
       (bind_js (read_config config) (\<lambda>cfg.
        bind_js (jwt_verify L token (refreshTokenSecret cfg) (issuer cfg) (audience cfg) date_now)
          (\<lambda>decoded.
        bind_js (js_get decoded ''type'') (\<lambda>type.
        if type \<noteq> Some (JString ''refresh'') then Inr None
        else bind_js (js_get decoded ''sub'') (\<lambda>sub'.
             Inr (Some \<lparr>sub_refresh = sub', type_refresh = type\<rparr>))))))
       (\<lambda>error. Inr None)"

section \<open>AuthUtils.extractTokenId\<close>

text \<open>
  \<open>sha256_hex\<close> stands for \<open>crypto.createHash('sha256').update(token).digest('hex')\<close>.
  The object that \<open>jwt.decode\<close> returns with \<open>complete: true\<close> has exactly the
  properties \<open>header\<close>, \<open>payload\<close> and \<open>signature\<close>, so \<open>decoded.sub\<close> is
  \<open>undefined\<close>; a \<open>null\<close> result makes \<open>decoded.header\<close> throw, which the \<open>catch\<close>
  block turns into the truncated hash.
\<close>

definition extractTokenId ::
  "jwt_library \<Rightarrow> (string \<Rightarrow> string) \<Rightarrow> string \<Rightarrow> js_error + jsval option" where
  "extractTokenId L sha256_hex token =
     try_catch
       (case jws_decode L token of
          None \<Rightarrow> Inl (TypeError ''Cannot read properties of null (reading header)'')
        | Some decoded \<Rightarrow>
            bind_js (js_get (header_of decoded) ''jti'') (\<lambda>jti.
            if js_truthy jti then Inr jti else Inr None))
       (\<lambda>error. Inr (Some (JString (take 16 (sha256_hex token)))))"

section \<open>Utils and AuthUtils: random tokens and codes\<close>

text \<open>
  The two sources of randomness the code reads are explicit: \<open>crypto_stream\<close> is the
  sequence of bytes that \<open>crypto.randomBytes\<close> (the operating system's cryptographically
  secure generator) delivers, \<open>math_stream\<close> the sequence of values that \<open>Math.random()\<close>
  (the engine's non-cryptographic generator, each value in \<open>[0, 1)\<close>) returns; the two
  counters say how much of each has been consumed. Every generator takes the state and
  returns it updated.
\<close>

record entropy =
  crypto_stream :: "nat \<Rightarrow> 8 word"
  crypto_used :: nat
  math_stream :: "nat \<Rightarrow> real"
  math_used :: nat

definition crypto_randomBytes :: "nat \<Rightarrow> entropy \<Rightarrow> js_error + (8 word list \<times> entropy)" where
  "crypto_randomBytes size' e =
     (if 2 ^ 31 - 1 < size' then Inl (RangeError ''The value of size is out of range.'')
      else Inr (map (crypto_stream e) [crypto_used e ..< crypto_used e + size'],
                e\<lparr>crypto_used := crypto_used e + size'\<rparr>))"

definition Math_random :: "entropy \<Rightarrow> real \<times> entropy" where
  "Math_random e = (math_stream e (math_used e), e\<lparr>math_used := Suc (math_used e)\<rparr>)"

definition hex_digit :: "nat \<Rightarrow> char" where
  "hex_digit n = ''0123456789abcdef'' ! n"

text \<open>\<open>buffer.toString("hex")\<close>: two lower-case hexadecimal digits for each byte.\<close>

definition toString_hex :: "8 word list \<Rightarrow> string" where
  "toString_hex bytes =
     concat (map (\<lambda>b. [hex_digit (unat b div 16), hex_digit (unat b mod 16)]) bytes)"

definition generateRandomString :: "nat \<Rightarrow> entropy \<Rightarrow> js_error + (string \<times> entropy)" where
  "generateRandomString length' e =
     bind_js (crypto_randomBytes length' e) (\<lambda>(bytes, e'). Inr (toString_hex bytes, e'))"

text \<open>
  \<open>digits[i]\<close> for \<open>digits = "0123456789"\<close>; outside the string the read is
  \<open>undefined\<close>, which \<open>code += \<dots>\<close> appends as the text \<open>undefined\<close>.
\<close>

definition digit_at :: "int \<Rightarrow> string" where
  "digit_at i = (if 0 \<le> i \<and> i < 10 then [''0123456789'' ! nat i] else ''undefined'')"

text \<open>
  The loop of \<open>generateVerificationCode\<close>; the first argument is the number of
  iterations left, \<open>\<lfloor>r * 10\<rfloor>\<close> is \<open>Math.floor(Math.random() * digits.length)\<close>.
  The product is taken exactly here; the code rounds it to a double, which can move a
  value just below a whole number up to it (the digit then differs by one).
\<close>

fun verification_loop :: "nat \<Rightarrow> string \<Rightarrow> entropy \<Rightarrow> string \<times> entropy" where
  "verification_loop 0 code e = (code, e)"
| "verification_loop (Suc n) code e =
     (let (r, e') = Math_random e
      in verification_loop n (code @ digit_at \<lfloor>r * 10\<rfloor>) e')"

definition generateVerificationCode :: "nat \<Rightarrow> entropy \<Rightarrow> string \<times> entropy" where
  "generateVerificationCode length' e = verification_loop length' [] e"

definition generateSecureToken :: "nat \<Rightarrow> entropy \<Rightarrow> js_error + (string \<times> entropy)" where
  "generateSecureToken length' e = generateRandomString length' e"

definition generateEmailVerificationToken :: "entropy \<Rightarrow> js_error + (string \<times> entropy)" where
  "generateEmailVerificationToken e = generateRandomString 32 e"

definition generatePasswordResetToken :: "entropy \<Rightarrow> js_error + (string \<times> entropy)" where
  "generatePasswordResetToken e = generateRandomString 32 e"

definition generatePhoneVerificationCode :: "entropy \<Rightarrow> string \<times> entropy" where
  "generatePhoneVerificationCode e = generateVerificationCode 6 e"

definition generateSessionId :: "entropy \<Rightarrow> js_error + (string \<times> entropy)" where
  "generateSessionId e = generateRandomString 64 e"

definition generateCsrfToken :: "entropy \<Rightarrow> js_error + (string \<times> entropy)" where
  "generateCsrfToken e = generateRandomString 32 e"

section \<open>Role hierarchy resolver\<close>

text \<open>
  The source files hold no resolver: only the record types \<open>Role\<close>, \<open>Permission\<close> and
  \<open>UserRole\<close> exist. The definitions of this section follow section 4.1 of the
  specification.
\<close>

datatype resolver_error = CyclicRoleHierarchy

record UserRole =
  id_userRole :: string
  userId :: string
  roleId :: string
  contextType :: "string option"
  contextId :: "string option"
  assignedBy :: "string option"
  expiresAt :: "int option"
  isActive :: bool

text \<open>
  Modelled from the spec: the role graph, missing from the source. A node is a role
  record (with its parent pointer) together with the names of the permissions attached
  directly to it; the graph maps role ids to nodes.
\<close>

record RoleNode =
  role_of :: Role
  granted :: "string list"

type_synonym role_graph = "(string \<times> RoleNode) list"

text \<open>
  Modelled from the spec: the effectiveness rule for an assignment, missing from the
  source. An assignment is effective at time \<open>now\<close> iff it is active and its \<open>expiresAt\<close>
  is null or later than \<open>now\<close>; one with a \<open>contextId\<close> but no \<open>contextType\<close> is rejected
  before being considered effective.
\<close>

definition well_scoped :: "UserRole \<Rightarrow> bool" where
  "well_scoped a = (case contextId a of None \<Rightarrow> True | Some c \<Rightarrow> contextType a \<noteq> None)"

definition unexpired :: "int \<Rightarrow> UserRole \<Rightarrow> bool" where
  "unexpired now a = (case expiresAt a of None \<Rightarrow> True | Some t \<Rightarrow> now < t)"

definition effective :: "int \<Rightarrow> UserRole \<Rightarrow> bool" where
  "effective now a = (isActive a \<and> unexpired now a \<and> well_scoped a)"

text \<open>
  Modelled from the spec: the parent pointer of a role id in the graph, missing from the
  source.
\<close>

definition parent_of :: "role_graph \<Rightarrow> string \<Rightarrow> string option" where
  "parent_of roleGraph r =
     (case map_of roleGraph r of None \<Rightarrow> None | Some node \<Rightarrow> parentRoleId (role_of node))"

text \<open>
  Modelled from the spec: the walk up the parent chain of one role, missing from the
  source. It collects the permissions attached to each visited role until a role without
  parent is reached, keeps the set of visited roles, and fails with
  \<open>CyclicRoleHierarchy\<close> when a role is revisited. A role id without a node in the graph
  ends the walk and contributes nothing (the specification does not say). Each call
  enlarges the set of visited roles among the finitely many nodes of the graph, which is
  the termination argument.
\<close>

function walkParents :: "role_graph \<Rightarrow> string list \<Rightarrow> string \<Rightarrow> resolver_error + string list" where
  "walkParents roleGraph visited r =
     (if r \<in> set visited then Inl CyclicRoleHierarchy
      else case map_of roleGraph r of
             None \<Rightarrow> Inr []
           | Some node \<Rightarrow>
               (case parentRoleId (role_of node) of
                  None \<Rightarrow> Inr (granted node)
                | Some parent \<Rightarrow>
                    (case walkParents roleGraph (r # visited) parent of
                       Inl e \<Rightarrow> Inl e
                     | Inr inherited \<Rightarrow> Inr (granted node @ inherited))))"
  by pat_completeness auto
termination
proof (relation "measure (\<lambda>(roleGraph, visited, r). card (fst ` set roleGraph - set visited))")
  show "wf (measure (\<lambda>(roleGraph, visited, r). card (fst ` set roleGraph - set visited)))"
    by simp
next
  fix roleGraph :: role_graph and visited :: "string list" and r :: string
    and node :: RoleNode and parent :: string
  assume fresh: "r \<notin> set visited" and node: "map_of roleGraph r = Some node"
  from node have "r \<in> fst ` set roleGraph"
    by (metis map_of_eq_None_iff option.distinct(1))
  with fresh have "fst ` set roleGraph - set (r # visited) \<subset> fst ` set roleGraph - set visited"
    by auto
  then have "card (fst ` set roleGraph - set (r # visited)) < card (fst ` set roleGraph - set visited)"
    by (intro psubset_card_mono) simp_all
  then show "((roleGraph, r # visited, parent), (roleGraph, visited, r))
      \<in> measure (\<lambda>(roleGraph, visited, r). card (fst ` set roleGraph - set visited))"
    by simp
qed

declare walkParents.simps [simp del]

text \<open>
  Modelled from the spec: the loop over the effective assignments, missing from the
  source. Each assignment is paired with the permissions its role chain grants; the first
  failing walk fails the resolution.
\<close>

fun walkAssignments ::
  "role_graph \<Rightarrow> UserRole list \<Rightarrow> resolver_error + (UserRole \<times> string list) list" where
  "walkAssignments roleGraph [] = Inr []"
| "walkAssignments roleGraph (a # rest) =
     (case walkParents roleGraph [] (roleId a) of
        Inl e \<Rightarrow> Inl e
      | Inr perms \<Rightarrow>
          (case walkAssignments roleGraph rest of
             Inl e \<Rightarrow> Inl e
           | Inr grants \<Rightarrow> Inr ((a, perms) # grants)))"

text \<open>
  Modelled from the spec: the context rule, missing from the source. A permission that
  the catalog flags \<open>contextRequired\<close> is kept only if an assignment granting it carries
  a context, and the contexts \<open>(contextType, contextId)\<close> for which it holds are returned
  with it. A name that the catalog does not list counts as not context-required (the
  specification does not say).
\<close>

definition needs_context :: "(string \<times> Permission) list \<Rightarrow> string \<Rightarrow> bool" where
  "needs_context permissionCatalog p =
     (case map_of permissionCatalog p of None \<Rightarrow> False | Some perm \<Rightarrow> contextRequired perm)"

definition grants_with_context ::
  "(UserRole \<times> string list) list \<Rightarrow> string \<Rightarrow> (string \<times> string option) list" where
  "grants_with_context grants p =
     remdups (concat (map (\<lambda>(a, perms).
        (case contextType a of
           None \<Rightarrow> []
         | Some ct \<Rightarrow> if p \<in> set perms then [(ct, contextId a)] else [])) grants))"

record Resolution =
  effectivePermissions :: "string list"
  contexts :: "(string \<times> (string \<times> string option) list) list"

text \<open>
  Modelled from the spec: \<open>resolveEffectivePermissions(userId, assignments, roleGraph,
  permissionCatalog, now)\<close>, missing from the source. The assignments passed in are the
  user's own; the result lists each permission name once.
\<close>

definition resolveEffectivePermissions ::
  "string \<Rightarrow> UserRole list \<Rightarrow> role_graph \<Rightarrow> (string \<times> Permission) list \<Rightarrow> int
     \<Rightarrow> resolver_error + Resolution" where
  "resolveEffectivePermissions uid assignments roleGraph permissionCatalog now =
     (case walkAssignments roleGraph (filter (effective now) assignments) of
        Inl e \<Rightarrow> Inl e
      | Inr grants \<Rightarrow>
          let names = remdups (concat (map snd grants));
              kept = filter (\<lambda>p. if needs_context permissionCatalog p
                                  then grants_with_context grants p \<noteq> [] else True) names
          in Inr \<lparr>effectivePermissions = kept,
                  contexts = map (\<lambda>p. (p, grants_with_context grants p))
                               (filter (needs_context permissionCatalog) kept)\<rparr>)"

text \<open>
  \<open>ancestor roleGraph r n\<close> is the role reached from \<open>r\<close> after \<open>n\<close> parent steps,
  \<open>None\<close> once the chain has ended. It states the claims about the walk and is not part
  of the resolver.
\<close>

primrec ancestor :: "role_graph \<Rightarrow> string \<Rightarrow> nat \<Rightarrow> string option" where
  "ancestor roleGraph r 0 = Some r"
| "ancestor roleGraph r (Suc n) =
     (case ancestor roleGraph r n of None \<Rightarrow> None | Some x \<Rightarrow> parent_of roleGraph x)"

section \<open>Example values\<close>

text \<open>
  A configuration, two claim sets and an instance of the token library for the examples:
  the instance decodes exactly two strings, an access token and a refresh token, whose
  signatures verify under the access secret and the refresh secret it is given.
\<close>

definition example_config :: "string \<Rightarrow> string \<Rightarrow> JwtConfig" where
  "example_config access_secret refresh_secret =
     \<lparr>accessTokenSecret = access_secret, refreshTokenSecret = refresh_secret,
      accessTokenExpiry = ''15m'', refreshTokenExpiry = ''7d'',
      issuer = ''transport-auth'', audience = ''transport-api''\<rparr>"

definition example_access_claims :: jsval where
  "example_access_claims =
     JObject [(''sub'', JString ''user-1''), (''email'', JString ''a@b.c''),
              (''userType'', JString ''PASSENGER''),
              (''roles'', JArray [JString ''passenger'']),
              (''permissions'', JArray [JString ''booking.create'']),
              (''jti'', JString ''token-id-1''),
              (''iat'', JNumber (Num 1000)), (''exp'', JNumber (Num 1900)),
              (''aud'', JString ''transport-api''), (''iss'', JString ''transport-auth'')]"

definition example_refresh_claims :: jsval where
  "example_refresh_claims =
     JObject [(''sub'', JString ''user-1''), (''type'', JString ''refresh''),
              (''iat'', JNumber (Num 1000)), (''exp'', JNumber (Num 605800)),
              (''aud'', JString ''transport-api''), (''iss'', JString ''transport-auth'')]"

definition example_header :: jsval where
  "example_header = JObject [(''alg'', JString ''HS256''), (''typ'', JString ''JWT'')]"

definition example_library :: "string \<Rightarrow> string \<Rightarrow> jwt_library" where
  "example_library access_secret refresh_secret =
     \<lparr>jws_decode = (\<lambda>token.
        if token = ''access-token''
          then Some \<lparr>header_of = example_header, payload_of = example_access_claims,
                      signature_of = ''sig-a''\<rparr>
        else if token = ''refresh-token''
          then Some \<lparr>header_of = example_header, payload_of = example_refresh_claims,
                      signature_of = ''sig-r''\<rparr>
        else None),
      jws_signature_ok = (\<lambda>token secret.
        (token = ''access-token'' \<and> secret = access_secret)
        \<or> (token = ''refresh-token'' \<and> secret = refresh_secret)),
      jws_sign = (\<lambda>h p secret. if secret = refresh_secret then ''refresh-token'' else ''access-token''),
      ms = (\<lambda>timespan. if timespan = ''15m'' then Some 900000
                    else if timespan = ''7d'' then Some 604800000 else None)\<rparr>"

text \<open>
  The role graph \<open>A \<rightarrow> B \<rightarrow> C\<close> of the specification, the same with the parent of
  \<open>C\<close> set back to \<open>A\<close>, and an active, unexpired, global assignment of \<open>A\<close>.
\<close>

definition example_role :: "string \<Rightarrow> string option \<Rightarrow> string list \<Rightarrow> string \<times> RoleNode" where
  "example_role r parent perms =
     (r, \<lparr>role_of = \<lparr>id_role = r, name_role = r, displayName_role = r, parentRoleId = parent,
                     isSystemRole = False, isActive_role = True\<rparr>,
          granted = perms\<rparr>)"

definition example_chain :: role_graph where
  "example_chain =
     [example_role ''A'' (Some ''B'') [''trip.read''],
      example_role ''B'' (Some ''C'') [''trip.assign''],
      example_role ''C'' None [''trip.override'']]"

definition example_cycle :: role_graph where
  "example_cycle =
     [example_role ''A'' (Some ''B'') [''trip.read''],
      example_role ''B'' (Some ''C'') [''trip.assign''],
      example_role ''C'' (Some ''A'') [''trip.override'']]"

definition example_assignment :: UserRole where
  "example_assignment =
     \<lparr>id_userRole = ''ur-1'', userId = ''user-1'', roleId = ''A'', contextType = None,
      contextId = None, assignedBy = None, expiresAt = None, isActive = True\<rparr>"

text \<open>A payload for the examples: a passenger's token issued at 0 that expires at \<open>e\<close>.\<close>

abbreviation payload_expiring :: "int \<Rightarrow> JwtPayload" where
  "payload_expiring e \<equiv>
     \<lparr>sub = ''user-1'', email = ''a@b.c'', userType = PASSENGER, roles = [], permissions = [],
      iat = 0, exp = e\<rparr>"

section \<open>JavaScript numbers: properties\<close>

lemma to_double_small: "n < 2 ^ 53 \<Longrightarrow> to_double n = Num (int n)"
  by (simp add: to_double_def)

lemma to_double_cases: "(\<exists>k. to_double n = Num k \<and> 0 \<le> k) \<or> to_double n = PosInfinity"
  by (simp add: to_double_def Let_def)

lemma to_double_int_small: "0 \<le> d \<Longrightarrow> d < 2 ^ 53 \<Longrightarrow> to_double_int d = Num d"
proof -
  assume d: "0 \<le> d" "d < 2 ^ 53"
  then have "nat d < 2 ^ 53"
    by (simp add: nat_less_iff)
  with d(1) show ?thesis
    by (simp add: to_double_int_def to_double_small)
qed

lemma to_double_int_nonneg: "0 \<le> d \<Longrightarrow> js_le (Num 0) (to_double_int d)"
  using to_double_cases [of "nat d"] by (auto simp: to_double_int_def)

lemma to_double_int_nonpos: "d \<le> 0 \<Longrightarrow> js_le (to_double_int d) (Num 0)"
proof (cases "d = 0")
  case True
  then show ?thesis by (simp add: to_double_int_def to_double_small)
next
  case False
  assume "d \<le> 0"
  with False have "\<not> 0 \<le> d" by simp
  then show ?thesis
    using to_double_cases [of "nat (- d)"] by (auto simp: to_double_int_def)
qed


lemma Math_max_0_nonpos: "js_le x (Num 0) \<Longrightarrow> Math_max (Num 0) x = Num 0"
  by (cases x) (auto simp: Math_max_def)

lemma floorlog_2_54_below: "floorlog 2 18014396809481981 = 54"
proof -
  have "floorlog 2 18014396809481981 \<le> 54"
    by (simp add: floorlog_le_iff)
  moreover have "54 \<le> floorlog 2 18014396809481981"
    by (rule floorlog_geI) simp_all
  ultimately show ?thesis by simp
qed

section \<open>Expiry helpers: properties\<close>

lemma now_seconds_of_whole [simp]: "now_seconds (1000 * n) = n"
  by (simp add: now_seconds_def)

lemma getTimeToExpiry_exact:
  "exp p - now_seconds date_now < 2 ^ 53 \<Longrightarrow>
   getTimeToExpiry date_now p = Num (max 0 (exp p - now_seconds date_now))"
proof (cases "0 \<le> exp p - now_seconds date_now")
  case True
  assume "exp p - now_seconds date_now < 2 ^ 53"
  with True show ?thesis
    by (simp add: getTimeToExpiry_def js_sub_def to_double_int_small Math_max_def max_def)
next
  case False
  then have "js_le (to_double_int (exp p - now_seconds date_now)) (Num 0)"
    by (intro to_double_int_nonpos) simp
  with False show ?thesis
    by (simp add: getTimeToExpiry_def js_sub_def Math_max_0_nonpos max_def)
qed


lemma getTimeToExpiry_expired:
  "exp p \<le> now_seconds date_now \<Longrightarrow> getTimeToExpiry date_now p = Num 0"
  by (simp add: getTimeToExpiry_def js_sub_def Math_max_0_nonpos to_double_int_nonpos)

lemma getTimeToExpiry_rounded:
  "getTimeToExpiry 1700000003000 (payload_expiring 18014398509481984)
     = Num 18014396809481980"
  by (simp add: getTimeToExpiry_def now_seconds_def js_sub_def to_double_int_def to_double_def
      floorlog_2_54_below Let_def Math_max_def)

text \<open>
  C3. The claim asks that \<open>isTokenExpired\<close> is true whenever \<open>now \<ge> exp\<close>. The code
  compares with \<open>exp < now\<close>: at \<open>now = exp\<close> (any clock reading inside that second)
  the helper answers false for every payload, although the remaining lifetime reported by
  \<open>getTimeToExpiry\<close> is already 0 and the expiry check of \<open>jwt.verify\<close> rejects the
  token at that same time.
\<close>

theorem isTokenExpired_false_at_exp:
  "isTokenExpired (1000 * exp p + 999) p = False
   \<and> getTimeToExpiry (1000 * exp p + 999) p = Num 0
   \<and> check_exp (now_seconds (1000 * exp p + 999)) (Some (JNumber (Num (exp p))))
       = Inl (TokenExpiredError ''jwt expired'')"
  by (simp add: isTokenExpired_def getTimeToExpiry_expired now_seconds_def check_exp_def)

text \<open>
  C9, as the claim states it, fails in two ways. For a negative threshold: the remaining
  lifetime \<open>exp - now = -10\<close> is below the threshold \<open>-5\<close>, yet the clamped time to
  expiry is 0 and \<open>0 <= -5\<close> is false. For a large \<open>exp\<close>: with \<open>exp = 2 ^ 54\<close> and
  \<open>now = 1700000003\<close> the remaining lifetime is \<open>18014396809481981\<close>, the subtraction
  of the two doubles gives \<open>18014396809481980\<close>, and with that number as threshold the
  result is true although the remaining lifetime exceeds the threshold.
\<close>

theorem shouldRefreshToken_iff_counterexample:
  "\<not> (shouldRefreshToken 10000 (payload_expiring 0) (-5)
        \<longleftrightarrow> exp (payload_expiring 0) - now_seconds 10000 \<le> -5)
   \<and> \<not> (shouldRefreshToken 1700000003000 (payload_expiring 18014398509481984) 18014396809481980
        \<longleftrightarrow> exp (payload_expiring 18014398509481984) - now_seconds 1700000003000
              \<le> 18014396809481980)"
proof -
  have "\<not> shouldRefreshToken 10000 (payload_expiring 0) (-5)"
    by (simp add: shouldRefreshToken_def getTimeToExpiry_expired now_seconds_def)
  moreover have "shouldRefreshToken 1700000003000 (payload_expiring 18014398509481984)
                   18014396809481980"
    by (simp add: shouldRefreshToken_def getTimeToExpiry_rounded)
  ultimately show ?thesis
    by (simp add: now_seconds_def)
qed

text \<open>
  C9, amended: for every payload, current time and threshold (whole seconds) such that
  the remaining lifetime \<open>exp - now\<close> is below \<open>2 ^ 53\<close>, \<open>shouldRefreshToken\<close> is true
  exactly when the threshold is not negative and the remaining lifetime is at most the
  threshold. So for every non-negative threshold it is true if and only if the remaining
  lifetime is at most the threshold, and for a negative threshold it is false; with the
  default threshold of 300 seconds it is true at remaining lifetimes 0, 299 and 300 and
  false at 301.
\<close>

theorem shouldRefreshToken_iff:
  "exp p - now_seconds date_now < 2 ^ 53 \<Longrightarrow>
     (shouldRefreshToken date_now p t \<longleftrightarrow> 0 \<le> t \<and> exp p - now_seconds date_now \<le> t)
     \<and> (0 \<le> t \<longrightarrow>
          (shouldRefreshToken date_now p t \<longleftrightarrow> exp p - now_seconds date_now \<le> t))
     \<and> (t < 0 \<longrightarrow> \<not> shouldRefreshToken date_now p t)"
  by (auto simp: shouldRefreshToken_def getTimeToExpiry_exact)

theorem shouldRefreshToken_iff_witness:
  "(1000 + 301 :: int) - now_seconds 1000000 < 2 ^ 53 \<and> (0::int) \<le> 300
   \<and> shouldRefreshToken_default 1000000 (payload_expiring (1000 + 0))
   \<and> shouldRefreshToken_default 1000000 (payload_expiring (1000 + 299))
   \<and> shouldRefreshToken_default 1000000 (payload_expiring (1000 + 300))
   \<and> \<not> shouldRefreshToken_default 1000000 (payload_expiring (1000 + 301))
   \<and> \<not> shouldRefreshToken 1000000 (payload_expiring (1000 - 10)) (-5)"
  using shouldRefreshToken_iff [of "payload_expiring (1000 + 0)" 1000000 300]
        shouldRefreshToken_iff [of "payload_expiring (1000 + 299)" 1000000 300]
        shouldRefreshToken_iff [of "payload_expiring (1000 + 300)" 1000000 300]
        shouldRefreshToken_iff [of "payload_expiring (1000 + 301)" 1000000 300]
        shouldRefreshToken_iff [of "payload_expiring (1000 - 10)" 1000000 "-5"]
  by (simp add: shouldRefreshToken_default_def now_seconds_def)




section \<open>parseExpiry: properties\<close>

lemma multipliers_pos: "1 \<le> multipliers u"
  by (simp add: multipliers_def)

lemma match_expiry_form:
  "ds \<noteq> [] \<Longrightarrow> list_all is_digit ds \<Longrightarrow> u \<in> set ''smhd'' \<Longrightarrow>
   match_expiry (ds @ [u]) = Some (ds, u)"
  by (simp add: match_expiry_def)

lemma match_expiry_None_iff:
  "match_expiry s = None \<longleftrightarrow>
   \<not> (\<exists>ds u. s = ds @ [u] \<and> ds \<noteq> [] \<and> list_all is_digit ds \<and> u \<in> set ''smhd'')"
proof (cases "s = []")
  case True
  then show ?thesis by (simp add: match_expiry_def)
next
  case False
  then have s: "s = butlast s @ [last s]" by simp
  show ?thesis
  proof
    assume "match_expiry s = None"
    then have n: "\<not> (butlast s \<noteq> [] \<and> list_all is_digit (butlast s) \<and> last s \<in> set ''smhd'')"
      using False by (auto simp: match_expiry_def Let_def split: if_splits)
    show "\<not> (\<exists>ds u. s = ds @ [u] \<and> ds \<noteq> [] \<and> list_all is_digit ds \<and> u \<in> set ''smhd'')"
    proof
      assume "\<exists>ds u. s = ds @ [u] \<and> ds \<noteq> [] \<and> list_all is_digit ds \<and> u \<in> set ''smhd''"
      then obtain ds u where "s = ds @ [u]" "ds \<noteq> []" "list_all is_digit ds" "u \<in> set ''smhd''"
        by blast
      then have "butlast s = ds" "last s = u" by simp_all
      with n \<open>ds \<noteq> []\<close> \<open>list_all is_digit ds\<close> \<open>u \<in> set ''smhd''\<close> show False by simp
    qed
  next
    assume "\<not> (\<exists>ds u. s = ds @ [u] \<and> ds \<noteq> [] \<and> list_all is_digit ds \<and> u \<in> set ''smhd'')"
    with s have "\<not> (butlast s \<noteq> [] \<and> list_all is_digit (butlast s) \<and> last s \<in> set ''smhd'')"
      by metis
    then show "match_expiry s = None"
      by (auto simp: match_expiry_def Let_def)
  qed
qed

lemma parseExpiry_value:
  assumes "ds \<noteq> []" "list_all is_digit ds" "u \<in> set ''smhd''"
    and "decimal_value ds * multipliers u < 2 ^ 53"
  shows "parseExpiry (ds @ [u]) = Inr (Num (int (decimal_value ds * multipliers u)))"
proof -
  have "decimal_value ds \<le> decimal_value ds * multipliers u"
    using multipliers_pos [of u] by (cases "multipliers u") simp_all
  with assms(4) have small: "decimal_value ds < 2 ^ 53" by linarith
  show ?thesis
    using assms small
    by (simp add: parseExpiry_def match_expiry_form parseInt10_def to_double_small)
qed

lemma parseExpiry_malformed:
  "match_expiry expiry = None \<Longrightarrow>
   parseExpiry expiry = Inl (Error (''Invalid expiry format: '' @ expiry))"
  by (simp add: parseExpiry_def)

lemma floorlog_2_53: "floorlog 2 9007199254740992 = 54"
proof -
  have "floorlog 2 9007199254740992 \<le> 54"
    by (simp add: floorlog_le_iff)
  moreover have "54 \<le> floorlog 2 9007199254740992"
    by (rule floorlog_geI) simp_all
  ultimately show ?thesis by simp
qed

lemma floorlog_2_53_1: "floorlog 2 9007199254740993 = 54"
proof -
  have "floorlog 2 9007199254740993 \<le> 54"
    by (simp add: floorlog_le_iff)
  moreover have "54 \<le> floorlog 2 9007199254740993"
    by (rule floorlog_geI) simp_all
  ultimately show ?thesis by simp
qed

lemmas parseExpiry_eval =
  parseExpiry_def match_expiry_def is_digit_def parseInt10_def decimal_value_def
  digit_value_def multipliers_def to_double_def Let_def

text \<open>
  C6, as the claim states it, fails for a large integer: the numbers of the code are
  doubles, and \<open>parseInt\<close> of the sixteen digits \<open>9007199254740993\<close> (\<open>2 ^ 53 + 1\<close>) is
  \<open>9007199254740992\<close>, so \<open>parseExpiry\<close> of that many seconds does not return \<open>n * 1\<close>.
\<close>

theorem parseExpiry_large_counterexample:
  "decimal_value ''9007199254740993'' * multipliers CHR ''s'' = 9007199254740993
   \<and> parseExpiry ''9007199254740993s'' = Inr (Num 9007199254740992)"
  by (simp add: parseExpiry_eval floorlog_2_53_1 floorlog_2_53)

text \<open>
  C6, amended: for every string made of one or more decimal digits with value \<open>n\<close>
  followed by a unit \<open>s\<close>, \<open>m\<close>, \<open>h\<close> or \<open>d\<close>, such that the product of \<open>n\<close> and the
  multiplier of the unit (1, 60, 3600, 86400) is below \<open>2 ^ 53\<close>, \<open>parseExpiry\<close> returns
  that product; for every string not of that form it throws the error
  \<open>Invalid expiry format\<close> and returns no value.
\<close>

theorem parseExpiry_correct:
  "(ds \<noteq> [] \<and> list_all is_digit ds \<and> u \<in> set ''smhd''
      \<and> decimal_value ds * multipliers u < 2 ^ 53
    \<longrightarrow> parseExpiry (ds @ [u]) = Inr (Num (int (decimal_value ds * multipliers u))))
   \<and> multipliers CHR ''s'' = 1 \<and> multipliers CHR ''m'' = 60
   \<and> multipliers CHR ''h'' = 3600 \<and> multipliers CHR ''d'' = 86400
   \<and> (\<not> (\<exists>ds u. expiry = ds @ [u] \<and> ds \<noteq> [] \<and> list_all is_digit ds \<and> u \<in> set ''smhd'')
      \<longrightarrow> parseExpiry expiry = Inl (Error (''Invalid expiry format: '' @ expiry)))"
  using parseExpiry_value [of ds u] parseExpiry_malformed [of expiry]
        match_expiry_None_iff [of expiry]
  by (simp add: multipliers_def)

theorem parseExpiry_correct_witness:
  "parseExpiry ''15m'' = Inr (Num 900)
   \<and> parseExpiry ''-5s'' = Inl (Error ''Invalid expiry format: -5s'')"
  using parseExpiry_correct [of "''15''" "CHR ''m''" "''-5s''"]
        match_expiry_None_iff [of "''-5s''"]
  by (simp add: match_expiry_def is_digit_def decimal_value_def digit_value_def multipliers_def)

section \<open>Issuing tokens: properties\<close>

lemma jwt_sign_exp_in_payload:
  "map_of p ''exp'' \<noteq> None \<Longrightarrow> \<exists>e. jwt_sign L p secret iss aud ex date_now = Inl e"
  by (simp add: jwt_sign_def)

lemma generateTokens_error:
  assumes "parseExpiry (accessTokenExpiry cfg) = Inr a"
    and "parseExpiry (refreshTokenExpiry cfg) = Inr r"
    and "accessTokenSecret cfg \<noteq> []"
  shows "generateTokens L (Some cfg) date_now user rs ps =
    Inl (Error ''Bad options.expiresIn option the payload already has an exp property.'')"
  using assms
  by (simp add: generateTokens_def bind_js_def read_config_def jwt_sign_def Let_def is_number_def)

lemma generateTokens_example:
  "generateTokens (example_library ''access-secret'' ''refresh-secret'')
     (initialize (example_config ''access-secret'' ''refresh-secret'')) 1000000
     \<lparr>id_user = ''user-1'', email_user = ''a@b.c'', firstName = ''A'', lastName = ''B'',
      userType_user = PASSENGER, emailVerified = True, phoneVerified = False\<rparr> [] []
   = Inl (Error ''Bad options.expiresIn option the payload already has an exp property.'')"
proof -
  have "parseExpiry ''15m'' = Inr (Num 900)" "parseExpiry ''7d'' = Inr (Num 604800)"
    by (simp_all add: parseExpiry_eval)
  then show ?thesis
    by (simp add: initialize_def example_config_def generateTokens_error)
qed

text \<open>
  C1. The round trip needs an access token, and \<open>generateTokens\<close> never produces one:
  for every library instance, configuration, clock reading, user, role list and
  permission list the call ends in an exception. With a configuration whose two
  durations parse and whose access secret is not empty, the exception comes from
  \<open>jwt.sign\<close>, which is handed the option \<open>expiresIn\<close> together with a payload that
  already carries \<open>exp\<close>.
\<close>

theorem generateTokens_always_throws:
  "\<exists>e. generateTokens L config date_now user rs ps = Inl e"
  by (auto simp: generateTokens_def bind_js_def read_config_def jwt_sign_def Let_def is_number_def
      split: option.splits sum.splits)

section \<open>Verifying tokens: properties\<close>

lemma try_catch_total: "\<exists>r. try_catch body (\<lambda>e. Inr v) = Inr r"
  by (cases body) (simp_all add: try_catch_def)

lemma verifyAccessToken_never_throws: "\<exists>r. verifyAccessToken L config date_now token = Inr r"
  unfolding verifyAccessToken_def by (rule try_catch_total)

lemma verifyRefreshToken_never_throws: "\<exists>r. verifyRefreshToken L config date_now token = Inr r"
  unfolding verifyRefreshToken_def by (rule try_catch_total)

lemma verifyAccessToken_failure:
  "jwt_verify L token (accessTokenSecret cfg) (issuer cfg) (audience cfg) date_now = Inl e \<Longrightarrow>
   verifyAccessToken L (Some cfg) date_now token = Inr None"
  by (simp add: verifyAccessToken_def try_catch_def bind_js_def read_config_def)

lemma verifyAccessToken_success:
  "jwt_verify L token (accessTokenSecret cfg) (issuer cfg) (audience cfg) date_now = Inr d \<Longrightarrow>
   verifyAccessToken L (Some cfg) date_now token = Inr (Some d)"
  by (simp add: verifyAccessToken_def try_catch_def bind_js_def read_config_def)

lemma verifyRefreshToken_failure:
  "jwt_verify L token (refreshTokenSecret cfg) (issuer cfg) (audience cfg) date_now = Inl e \<Longrightarrow>
   verifyRefreshToken L (Some cfg) date_now token = Inr None"
  by (simp add: verifyRefreshToken_def try_catch_def bind_js_def read_config_def)

lemma verify_uninitialised:
  "verifyAccessToken L None date_now token = Inr None"
  "verifyRefreshToken L None date_now token = Inr None"
  by (simp_all add: verifyAccessToken_def verifyRefreshToken_def try_catch_def bind_js_def
      read_config_def)

lemma jwt_verify_refresh_claims:
  assumes "jws_decode L token = Some d"
    and "jws_signature_ok L token secret"
    and "payload_of d =
          JObject [(''sub'', JString uid), (''type'', JString ''refresh''),
                   (''iat'', JNumber (Num t0)), (''exp'', JNumber (Num t1)),
                   (''aud'', JString aud), (''iss'', JString iss)]"
    and "now_seconds date_now < t1"
  shows "jwt_verify L token secret iss aud date_now = Inr (payload_of d)"
  using assms
  by (simp add: jwt_verify_def bind_js_def check_nbf_def check_exp_def check_audience_def
      check_issuer_def Let_def)

text \<open>
  The half of the separation that holds: a token whose claims carry no \<open>type\<close> equal to
  \<open>refresh\<close>, as the access payload of \<open>generateTokens\<close>, is rejected by
  \<open>verifyRefreshToken\<close> under every configuration.
\<close>

lemma verifyRefreshToken_rejects_untyped:
  assumes "jws_decode L token = Some d"
    and "js_get (payload_of d) ''type'' \<noteq> Inr (Some (JString ''refresh''))"
  shows "verifyRefreshToken L config date_now token = Inr None"
proof (cases config)
  case None
  then show ?thesis by (simp add: verify_uninitialised)
next
  case (Some cfg)
  show ?thesis
  proof (cases "jwt_verify L token (refreshTokenSecret cfg) (issuer cfg) (audience cfg) date_now")
    case (Inl e)
    then show ?thesis using Some by (simp add: verifyRefreshToken_failure)
  next
    case (Inr v)
    then have "v = payload_of d"
      using assms(1)
      by (auto simp: jwt_verify_def bind_js_def Let_def split: if_splits sum.splits)
    with Inr Some assms(2) show ?thesis
      by (auto simp: verifyRefreshToken_def try_catch_def bind_js_def read_config_def
          split: sum.splits)
  qed
qed

lemma example_access_token_rejected_as_refresh:
  "verifyRefreshToken (example_library ''k'' ''k'') (Some (example_config ''k'' ''k'')) 1500000
     ''access-token'' = Inr None"
  by (rule verifyRefreshToken_rejects_untyped
        [where d = "\<lparr>header_of = example_header, payload_of = example_access_claims,
                     signature_of = ''sig-a''\<rparr>"])
     (simp_all add: example_library_def example_access_claims_def)

text \<open>
  C2. The separation fails in one direction. \<open>verifyAccessToken\<close> never looks at the
  \<open>type\<close> claim: when the access secret equals the refresh secret, a token carrying the
  refresh claims that \<open>generateTokens\<close> builds (\<open>sub\<close>, \<open>type = refresh\<close>, \<open>iat\<close>,
  \<open>exp\<close>, with the configured audience and issuer), signed with the refresh secret and
  not yet expired, is a valid refresh token and is accepted by \<open>verifyAccessToken\<close> as
  well, which returns its claims instead of \<open>null\<close>.
\<close>

theorem verifyAccessToken_accepts_refresh_token:
  assumes "accessTokenSecret cfg = refreshTokenSecret cfg"
    and "jws_decode L token = Some d"
    and "jws_signature_ok L token (refreshTokenSecret cfg)"
    and "payload_of d =
          JObject [(''sub'', JString uid), (''type'', JString ''refresh''),
                   (''iat'', JNumber (Num t0)), (''exp'', JNumber (Num t1)),
                   (''aud'', JString (audience cfg)), (''iss'', JString (issuer cfg))]"
    and "now_seconds date_now < t1"
  shows "verifyRefreshToken L (Some cfg) date_now token =
           Inr (Some \<lparr>sub_refresh = Some (JString uid), type_refresh = Some (JString ''refresh'')\<rparr>)
         \<and> verifyAccessToken L (Some cfg) date_now token = Inr (Some (payload_of d))"
proof -
  have v: "jwt_verify L token (refreshTokenSecret cfg) (issuer cfg) (audience cfg) date_now
             = Inr (payload_of d)"
    using assms(2-5) by (rule jwt_verify_refresh_claims)
  have "verifyAccessToken L (Some cfg) date_now token = Inr (Some (payload_of d))"
    using v assms(1) by (simp add: verifyAccessToken_success)
  moreover have "verifyRefreshToken L (Some cfg) date_now token =
           Inr (Some \<lparr>sub_refresh = Some (JString uid), type_refresh = Some (JString ''refresh'')\<rparr>)"
    using v assms(4)
    by (simp add: verifyRefreshToken_def try_catch_def bind_js_def read_config_def)
  ultimately show ?thesis by simp
qed

theorem verifyAccessToken_accepts_refresh_token_witness:
  "verifyRefreshToken (example_library ''k'' ''k'') (Some (example_config ''k'' ''k'')) 2000000
     ''refresh-token''
     = Inr (Some \<lparr>sub_refresh = Some (JString ''user-1''),
                  type_refresh = Some (JString ''refresh'')\<rparr>)
   \<and> verifyAccessToken (example_library ''k'' ''k'') (Some (example_config ''k'' ''k'')) 2000000
       ''refresh-token''
     = Inr (Some example_refresh_claims)"
  using verifyAccessToken_accepts_refresh_token
      [of "example_config ''k'' ''k''" "example_library ''k'' ''k''" "''refresh-token''"
          "\<lparr>header_of = example_header, payload_of = example_refresh_claims,
            signature_of = ''sig-r''\<rparr>"
          "''user-1''" 1000 605800 2000000]
  by (simp add: example_config_def example_library_def example_refresh_claims_def now_seconds_def)

text \<open>
  C5. Neither verifier lets an exception out: for every library instance, every state of
  the configuration (also before \<open>initialize\<close>), every clock reading and every input
  string the result is a returned value, either the decoded result or \<open>null\<close>. Whatever
  exception \<open>jwt.verify\<close> throws (undecodable token, bad signature, not yet valid,
  expired, wrong audience or issuer, malformed claim), the value returned is the same
  \<open>null\<close>, so the caller cannot tell the reason.
\<close>

theorem verify_recovers_every_failure:
  "(\<exists>r. verifyAccessToken L config date_now token = Inr r)
   \<and> (\<exists>r. verifyRefreshToken L config date_now token = Inr r)
   \<and> ((\<exists>e. jwt_verify L token (accessTokenSecret cfg) (issuer cfg) (audience cfg) date_now = Inl e)
        \<longrightarrow> verifyAccessToken L (Some cfg) date_now token = Inr None)
   \<and> ((\<exists>e. jwt_verify L token (refreshTokenSecret cfg) (issuer cfg) (audience cfg) date_now = Inl e)
        \<longrightarrow> verifyRefreshToken L (Some cfg) date_now token = Inr None)
   \<and> verifyAccessToken L None date_now token = Inr None
   \<and> verifyRefreshToken L None date_now token = Inr None"
  using verifyAccessToken_never_throws [of L config date_now token]
        verifyRefreshToken_never_throws [of L config date_now token]
        verifyAccessToken_failure [of L token cfg date_now]
        verifyRefreshToken_failure [of L token cfg date_now]
        verify_uninitialised [of L date_now token]
  by blast

theorem verify_recovers_every_failure_witness:
  "jwt_verify (example_library ''access-secret'' ''refresh-secret'') ''not a token''
      ''access-secret'' ''transport-auth'' ''transport-api'' 1500000
     = Inl (JsonWebTokenError ''invalid token'')
   \<and> verifyAccessToken (example_library ''access-secret'' ''refresh-secret'')
       (Some (example_config ''access-secret'' ''refresh-secret'')) 1500000 ''not a token''
     = Inr None
   \<and> jwt_verify (example_library ''access-secret'' ''refresh-secret'') ''access-token''
      ''access-secret'' ''transport-auth'' ''transport-api'' 1900000
     = Inl (TokenExpiredError ''jwt expired'')
   \<and> verifyAccessToken (example_library ''access-secret'' ''refresh-secret'')
       (Some (example_config ''access-secret'' ''refresh-secret'')) 1900000 ''access-token''
     = Inr None
   \<and> jwt_verify (example_library ''access-secret'' ''refresh-secret'') ''access-token''
      ''refresh-secret'' ''transport-auth'' ''transport-api'' 1500000
     = Inl (JsonWebTokenError ''invalid signature'')
   \<and> verifyRefreshToken (example_library ''access-secret'' ''refresh-secret'')
       (Some (example_config ''access-secret'' ''refresh-secret'')) 1500000 ''access-token''
     = Inr None
   \<and> verifyAccessToken (example_library ''access-secret'' ''refresh-secret'')
       (Some (example_config ''access-secret'' ''refresh-secret'')) 1899999 ''access-token''
     = Inr (Some example_access_claims)"
proof -
  let ?L = "example_library ''access-secret'' ''refresh-secret''"
  let ?cfg = "example_config ''access-secret'' ''refresh-secret''"
  have a: "jwt_verify ?L ''not a token'' ''access-secret'' ''transport-auth'' ''transport-api''
             1500000 = Inl (JsonWebTokenError ''invalid token'')"
    by (simp add: jwt_verify_def example_library_def)
  have b: "jwt_verify ?L ''access-token'' ''access-secret'' ''transport-auth'' ''transport-api''
             1900000 = Inl (TokenExpiredError ''jwt expired'')"
    by (simp add: jwt_verify_def example_library_def example_access_claims_def bind_js_def
        check_nbf_def check_exp_def now_seconds_def)
  have c: "jwt_verify ?L ''access-token'' ''refresh-secret'' ''transport-auth'' ''transport-api''
             1500000 = Inl (JsonWebTokenError ''invalid signature'')"
    by (simp add: jwt_verify_def example_library_def)
  have d: "verifyAccessToken ?L (Some ?cfg) 1899999 ''access-token''
             = Inr (Some example_access_claims)"
    by (simp add: verifyAccessToken_def try_catch_def read_config_def jwt_verify_def
        example_library_def example_config_def example_access_claims_def bind_js_def
        check_nbf_def check_exp_def check_audience_def check_issuer_def now_seconds_def)
  show ?thesis
    using a b c d
      verify_recovers_every_failure [of ?L "Some ?cfg" 1500000 "''not a token''" ?cfg]
      verify_recovers_every_failure [of ?L "Some ?cfg" 1900000 "''access-token''" ?cfg]
      verify_recovers_every_failure [of ?L "Some ?cfg" 1500000 "''access-token''" ?cfg]
    by (simp add: example_config_def)
qed

section \<open>extractTokenId: properties\<close>

lemma extractTokenId_undecodable:
  "jws_decode L token = None \<Longrightarrow>
   extractTokenId L sha256_hex token = Inr (Some (JString (take 16 (sha256_hex token))))"
  by (simp add: extractTokenId_def try_catch_def)

lemma extractTokenId_header_jti:
  "jws_decode L token = Some d \<Longrightarrow> js_get (header_of d) ''jti'' = Inr (Some (JString i)) \<Longrightarrow>
   i \<noteq> [] \<Longrightarrow> extractTokenId L sha256_hex token = Inr (Some (JString i))"
  by (simp add: extractTokenId_def try_catch_def bind_js_def)

text \<open>
  C8. The claim fails on every decodable token with the usual header. The code reads
  \<open>jti\<close> from the token's header and \<open>sub\<close> from the object that \<open>jwt.decode\<close> returns
  (which has no such property), never from the claims in the payload: for a token whose
  header holds only \<open>alg\<close> and \<open>typ\<close> the result is \<open>undefined\<close>, whether or not the
  payload carries a \<open>jti\<close> claim; it is neither that identifier nor the truncated hash of
  the token.
\<close>

theorem extractTokenId_undefined_for_decodable_token:
  assumes "jws_decode L token = Some d"
    and "header_of d = JObject [(''alg'', JString alg), (''typ'', JString ''JWT'')]"
  shows "extractTokenId L sha256_hex token = Inr None"
  using assms by (simp add: extractTokenId_def try_catch_def bind_js_def)

theorem extractTokenId_undefined_for_decodable_token_witness:
  "js_get example_access_claims ''jti'' = Inr (Some (JString ''token-id-1''))
   \<and> extractTokenId (example_library ''access-secret'' ''refresh-secret'')
        (\<lambda>token. ''9f86d081884c7d659a2feaa0c55ad015a3bf4f1b2b0b822cd15d6c15b0f00a08'')
        ''access-token'' = Inr None
   \<and> extractTokenId (example_library ''access-secret'' ''refresh-secret'')
        (\<lambda>token. ''9f86d081884c7d659a2feaa0c55ad015a3bf4f1b2b0b822cd15d6c15b0f00a08'')
        ''refresh-token'' = Inr None"
  using extractTokenId_undefined_for_decodable_token
      [of "example_library ''access-secret'' ''refresh-secret''" "''access-token''"
          "\<lparr>header_of = example_header, payload_of = example_access_claims,
            signature_of = ''sig-a''\<rparr>" "''HS256''"]
    extractTokenId_undefined_for_decodable_token
      [of "example_library ''access-secret'' ''refresh-secret''" "''refresh-token''"
          "\<lparr>header_of = example_header, payload_of = example_refresh_claims,
            signature_of = ''sig-r''\<rparr>" "''HS256''"]
  by (simp add: example_library_def example_header_def example_access_claims_def)

section \<open>Random tokens and codes: properties\<close>

lemma verification_loop_crypto:
  "crypto_used (snd (verification_loop n code e)) = crypto_used e
   \<and> crypto_stream (snd (verification_loop n code e)) = crypto_stream e"
  by (induction n arbitrary: code e) (simp_all add: Math_random_def Let_def)

text \<open>The code of \<open>generateVerificationCode\<close> is a function of the \<open>Math.random\<close> values alone.\<close>

lemma verification_loop_reads_math_stream_only:
  "math_stream e1 = math_stream e2 \<Longrightarrow> math_used e1 = math_used e2 \<Longrightarrow>
   fst (verification_loop n code e1) = fst (verification_loop n code e2)"
  by (induction n arbitrary: code e1 e2) (simp_all add: Math_random_def Let_def)

text \<open>
  The hexadecimal generators read the secure byte stream alone: email-verification,
  password-reset, session and CSRF tokens do not depend on \<open>Math.random\<close>.
\<close>

lemma generateRandomString_reads_crypto_stream_only:
  "crypto_stream e1 = crypto_stream e2 \<Longrightarrow> crypto_used e1 = crypto_used e2 \<Longrightarrow>
   map_sum id fst (generateRandomString n e1) = map_sum id fst (generateRandomString n e2)"
  by (simp add: generateRandomString_def crypto_randomBytes_def bind_js_def)

lemma generateRandomString_length:
  "generateRandomString n e = Inr (s, e') \<Longrightarrow> length s = 2 * n"
  by (auto simp: generateRandomString_def crypto_randomBytes_def bind_js_def toString_hex_def
      length_concat comp_def sum_list_triv split: if_splits)

text \<open>
  C7. The phone verification code is not drawn from the secure source. For every state
  of the secure byte stream, \<open>generatePhoneVerificationCode\<close> consumes none of its bytes,
  and its six digits follow the values of \<open>Math.random()\<close>: all zeros when those values
  are 0, all nines when they are 0.9.
\<close>

theorem generatePhoneVerificationCode_draws_from_Math_random:
  "fst (generatePhoneVerificationCode
         \<lparr>crypto_stream = c, crypto_used = k, math_stream = (\<lambda>i. 0), math_used = 0\<rparr>)
     = ''000000''
   \<and> fst (generatePhoneVerificationCode
         \<lparr>crypto_stream = c, crypto_used = k, math_stream = (\<lambda>i. 9 / 10), math_used = 0\<rparr>)
     = ''999999''
   \<and> crypto_used (snd (generatePhoneVerificationCode e)) = crypto_used e"
  by (simp add: generatePhoneVerificationCode_def generateVerificationCode_def
      verification_loop_crypto eval_nat_numeral Math_random_def digit_at_def)

section \<open>Role hierarchy resolver: properties\<close>

lemma ancestor_shift:
  "parent_of g r = Some p \<Longrightarrow> ancestor g r (Suc n) = ancestor g p n"
  by (induction n) simp_all

lemma ancestor_add:
  "ancestor g r i = Some x \<Longrightarrow> ancestor g r (i + k) = ancestor g x k"
  by (induction k) simp_all

lemma ancestor_defined_below:
  "ancestor g r j \<noteq> None \<Longrightarrow> i \<le> j \<Longrightarrow> ancestor g r i \<noteq> None"
proof (induction j)
  case 0
  then show ?case by simp
next
  case (Suc j)
  show ?case
  proof (cases "i = Suc j")
    case True
    with Suc.prems show ?thesis by simp
  next
    case False
    with Suc.prems have "i \<le> j" by simp
    moreover from Suc.prems(1) have "ancestor g r j \<noteq> None"
      by (auto split: option.splits)
    ultimately show ?thesis by (rule Suc.IH[rotated])
  qed
qed

text \<open>A chain that comes back to a role it has passed never ends.\<close>

lemma revisit_endless:
  assumes "i < j" "ancestor g r i = Some x" "ancestor g r j = Some x"
  shows "ancestor g r n \<noteq> None"
proof (induction n rule: less_induct)
  case (less n)
  show ?case
  proof (cases "n \<le> j")
    case True
    with assms(3) show ?thesis
      using ancestor_defined_below [of g r j n] by simp
  next
    case False
    then have n: "n = j + (n - j)" by simp
    have "ancestor g r n = ancestor g x (n - j)"
      using ancestor_add [OF assms(3), of "n - j"] n by simp
    also have "\<dots> = ancestor g r (i + (n - j))"
      using ancestor_add [OF assms(2), of "n - j"] by simp
    finally have "ancestor g r n = ancestor g r (i + (n - j))" .
    moreover have "i + (n - j) < n" using assms(1) False by simp
    ultimately show ?thesis using less.IH by simp
  qed
qed

text \<open>On a chain that never ends the walk stops at the first revisited role.\<close>

lemma walkParents_endless:
  "(\<And>n. ancestor g r n \<noteq> None) \<Longrightarrow> walkParents g visited r = Inl CyclicRoleHierarchy"
proof (induction g visited r rule: walkParents.induct)
  case (1 g visited r)
  show ?case
  proof (cases "r \<in> set visited")
    case True
    then show ?thesis by (simp add: walkParents.simps)
  next
    case False
    from "1.prems" [of 1] obtain p where p: "parent_of g r = Some p"
      by auto
    then obtain node where node: "map_of g r = Some node" "parentRoleId (role_of node) = Some p"
      by (auto simp: parent_of_def split: option.splits)
    have "\<And>n. ancestor g p n \<noteq> None"
      using "1.prems" ancestor_shift [OF p] by metis
    then have "walkParents g (r # visited) p = Inl CyclicRoleHierarchy"
      using "1.IH" [OF False node] by simp
    with False node show ?thesis
      by (simp add: walkParents.simps [of g visited r])
  qed
qed

lemma walkAssignments_cycle:
  "a \<in> set as \<Longrightarrow> walkParents g [] (roleId a) = Inl CyclicRoleHierarchy \<Longrightarrow>
   walkAssignments g as = Inl CyclicRoleHierarchy"
proof (induction as)
  case Nil
  then show ?case by simp
next
  case (Cons b as)
  show ?case
  proof (cases "walkParents g [] (roleId b)")
    case (Inl e)
    then show ?thesis by (cases e) simp
  next
    case (Inr perms)
    with Cons.prems have "a \<in> set as" by auto
    with Cons have "walkAssignments g as = Inl CyclicRoleHierarchy" by simp
    with Inr show ?thesis by simp
  qed
qed

text \<open>
  Conversely, on a chain that ends without coming back the walk succeeds, so the
  resolution fails exactly when the chain of some effective assignment never ends.
\<close>

lemma walkParents_ends:
  "ancestor g r n = None \<Longrightarrow> (\<And>k x. ancestor g r k = Some x \<Longrightarrow> x \<notin> set visited) \<Longrightarrow>
   \<exists>ps. walkParents g visited r = Inr ps"
proof (induction n arbitrary: r visited)
  case 0
  then show ?case by simp
next
  case (Suc n)
  have fresh: "r \<notin> set visited"
    using Suc.prems(2) [of 0 r] by simp
  show ?case
  proof (cases "parent_of g r")
    case None
    with fresh show ?thesis
      by (auto simp: walkParents.simps [of g visited r] parent_of_def split: option.splits)
  next
    case (Some p)
    then obtain node where node: "map_of g r = Some node" "parentRoleId (role_of node) = Some p"
      by (auto simp: parent_of_def split: option.splits)
    have shift: "\<And>k. ancestor g p k = ancestor g r (Suc k)"
      using ancestor_shift [OF Some] by simp
    have ends: "ancestor g p n = None"
      using Suc.prems(1) shift by simp
    have "x \<notin> set (r # visited)" if x: "ancestor g p k = Some x" for k x
    proof -
      have "x \<notin> set visited"
        using Suc.prems(2) [of "Suc k" x] x shift by simp
      moreover have "x \<noteq> r"
      proof
        assume "x = r"
        then have "ancestor g r (Suc k) = Some r" using x shift by simp
        then have "ancestor g r (Suc n) \<noteq> None"
          using revisit_endless [of 0 "Suc k" g r r "Suc n"] by simp
        with Suc.prems(1) show False by simp
      qed
      ultimately show ?thesis by simp
    qed
    then obtain ps where "walkParents g (r # visited) p = Inr ps"
      using Suc.IH [OF ends] by blast
    with fresh node show ?thesis
      by (simp add: walkParents.simps [of g visited r])
  qed
qed

lemma walkParents_fails_iff:
  "walkParents g [] r = Inl CyclicRoleHierarchy \<longleftrightarrow> (\<forall>n. ancestor g r n \<noteq> None)"
proof
  assume f: "walkParents g [] r = Inl CyclicRoleHierarchy"
  show "\<forall>n. ancestor g r n \<noteq> None"
  proof (rule ccontr)
    assume "\<not> (\<forall>n. ancestor g r n \<noteq> None)"
    then obtain n where "ancestor g r n = None" by blast
    then have "\<exists>ps. walkParents g [] r = Inr ps"
      by (rule walkParents_ends) simp
    with f show False by simp
  qed
next
  assume "\<forall>n. ancestor g r n \<noteq> None"
  then show "walkParents g [] r = Inl CyclicRoleHierarchy"
    by (intro walkParents_endless) simp
qed

lemma walkAssignments_fails_iff:
  "(\<exists>e. walkAssignments g as = Inl e) \<longleftrightarrow>
   (\<exists>a \<in> set as. walkParents g [] (roleId a) = Inl CyclicRoleHierarchy)"
proof (induction as)
  case Nil
  then show ?case by simp
next
  case (Cons b as)
  show ?case
  proof (cases "walkParents g [] (roleId b)")
    case (Inl e)
    then show ?thesis by (cases e) auto
  next
    case (Inr perms)
    with Cons show ?thesis by (auto split: sum.splits)
  qed
qed

lemma resolveEffectivePermissions_fails_iff:
  "resolveEffectivePermissions uid assignments g cat now = Inl CyclicRoleHierarchy \<longleftrightarrow>
   (\<exists>a \<in> set assignments. effective now a \<and> (\<forall>n. ancestor g (roleId a) n \<noteq> None))"
proof -
  have "resolveEffectivePermissions uid assignments g cat now = Inl CyclicRoleHierarchy \<longleftrightarrow>
        (\<exists>e. walkAssignments g (filter (effective now) assignments) = Inl e)"
    by (auto simp: resolveEffectivePermissions_def Let_def split: sum.splits)
       (metis resolver_error.exhaust)
  then show ?thesis
    by (simp add: walkAssignments_fails_iff walkParents_fails_iff) blast
qed

text \<open>The acyclic chain \<open>A \<rightarrow> B \<rightarrow> C\<close> resolves to the permissions of the three roles.\<close>

lemma resolve_example_chain:
  "resolveEffectivePermissions ''user-1'' [example_assignment] example_chain [] 1000
   = Inr \<lparr>effectivePermissions = [''trip.read'', ''trip.assign'', ''trip.override''],
          contexts = []\<rparr>"
  by (simp add: resolveEffectivePermissions_def effective_def unexpired_def well_scoped_def
      example_assignment_def example_chain_def example_role_def walkParents.simps
      needs_context_def)

text \<open>
  C4. The resolver is a total function: the walk up the parent chain is defined by
  recursion on the roles not yet visited, so it returns on every graph, assignment list,
  catalog and time. Whenever the parent chain of the role of an effective assignment
  comes back to a role it has already passed (the role after \<open>i\<close> steps is met again
  after \<open>j > i\<close> steps), the resolution fails with \<open>CyclicRoleHierarchy\<close>; it does not
  resolve to a permission set.
\<close>

theorem resolveEffectivePermissions_detects_cycle:
  assumes "a \<in> set assignments" "effective now a"
    and "i < j" "ancestor g (roleId a) i = Some x" "ancestor g (roleId a) j = Some x"
  shows "resolveEffectivePermissions uid assignments g cat now = Inl CyclicRoleHierarchy"
proof -
  have "walkParents g [] (roleId a) = Inl CyclicRoleHierarchy"
    using revisit_endless [OF assms(3-5)] by (rule walkParents_endless)
  moreover have "a \<in> set (filter (effective now) assignments)"
    using assms(1,2) by simp
  ultimately have "walkAssignments g (filter (effective now) assignments) = Inl CyclicRoleHierarchy"
    by (rule walkAssignments_cycle [rotated])
  then show ?thesis by (simp add: resolveEffectivePermissions_def)
qed

theorem resolveEffectivePermissions_detects_cycle_witness:
  "effective 1000 example_assignment
   \<and> ancestor example_cycle ''A'' 0 = Some ''A''
   \<and> ancestor example_cycle ''A'' 3 = Some ''A''
   \<and> resolveEffectivePermissions ''user-1'' [example_assignment] example_cycle [] 1000
       = Inl CyclicRoleHierarchy"
proof -
  have e: "effective 1000 example_assignment"
    by (simp add: effective_def unexpired_def well_scoped_def example_assignment_def)
  have a0: "ancestor example_cycle ''A'' 0 = Some ''A''"
    by simp
  have a3: "ancestor example_cycle ''A'' 3 = Some ''A''"
    by (simp add: eval_nat_numeral parent_of_def example_cycle_def example_role_def)
  have r: "roleId example_assignment = ''A''"
    by (simp add: example_assignment_def)
  show ?thesis
    using e a0 a3
      resolveEffectivePermissions_detects_cycle
        [of example_assignment "[example_assignment]" 1000 0 3 example_cycle "''A''"
            "''user-1''" "[]"]
    by (simp add: r)
qed

end
